theory Spec2Isabelle
  imports Complex_Main
begin

section \<open>Data model (types.ts)\<close>

text \<open>
  The numbers a layer holds are finite doubles, kept as the reals they denote.
  The interaction and export handlers are modelled in real arithmetic: the
  theorems about them are about the closed-form geometry, not about IEEE
  rounding.  The drop handler, whose height is a quotient of a quotient, is
  modelled with the rounding of the doubles (see there).  The fields
  \<open>id\<close>, \<open>x\<close> and \<open>y\<close> of the source carry a suffix here, since the bare
  names would capture the identity function and the variables of the lemmas.
\<close>

record asset =
  a_id :: string
  a_src :: string

record layer =
  id_l :: string
  assetId :: string
  src :: string
  originalSrc :: string
  x_l :: real
  y_l :: real
  width :: real
  height :: real
  scale :: real
  rotation :: real
  brightness :: real
  contrast :: real
  isFixed :: bool

text \<open>\<open>Partial<Layer>\<close>: every field optional; \<open>None\<close> is an absent key.\<close>

record layer_partial =
  p_id :: "string option"
  p_assetId :: "string option"
  p_src :: "string option"
  p_originalSrc :: "string option"
  p_x :: "real option"
  p_y :: "real option"
  p_width :: "real option"
  p_height :: "real option"
  p_scale :: "real option"
  p_rotation :: "real option"
  p_brightness :: "real option"
  p_contrast :: "real option"
  p_isFixed :: "bool option"

definition no_updates :: layer_partial where
  "no_updates = \<lparr> p_id = None, p_assetId = None, p_src = None, p_originalSrc = None,
      p_x = None, p_y = None, p_width = None, p_height = None, p_scale = None,
      p_rotation = None, p_brightness = None, p_contrast = None, p_isFixed = None \<rparr>"

text \<open>The object spread \<open>{ ...l, ...updates }\<close>: a key of \<open>updates\<close> wins.\<close>

definition spread :: "layer \<Rightarrow> layer_partial \<Rightarrow> layer" where
  "spread l u = \<lparr>
      id_l = (case p_id u of None \<Rightarrow> id_l l | Some v \<Rightarrow> v),
      assetId = (case p_assetId u of None \<Rightarrow> assetId l | Some v \<Rightarrow> v),
      src = (case p_src u of None \<Rightarrow> src l | Some v \<Rightarrow> v),
      originalSrc = (case p_originalSrc u of None \<Rightarrow> originalSrc l | Some v \<Rightarrow> v),
      x_l = (case p_x u of None \<Rightarrow> x_l l | Some v \<Rightarrow> v),
      y_l = (case p_y u of None \<Rightarrow> y_l l | Some v \<Rightarrow> v),
      width = (case p_width u of None \<Rightarrow> width l | Some v \<Rightarrow> v),
      height = (case p_height u of None \<Rightarrow> height l | Some v \<Rightarrow> v),
      scale = (case p_scale u of None \<Rightarrow> scale l | Some v \<Rightarrow> v),
      rotation = (case p_rotation u of None \<Rightarrow> rotation l | Some v \<Rightarrow> v),
      brightness = (case p_brightness u of None \<Rightarrow> brightness l | Some v \<Rightarrow> v),
      contrast = (case p_contrast u of None \<Rightarrow> contrast l | Some v \<Rightarrow> v),
      isFixed = (case p_isFixed u of None \<Rightarrow> isFixed l | Some v \<Rightarrow> v) \<rparr>"

section \<open>Layer store (the App component's state and its handlers)\<close>

text \<open>
  The two pieces of \<open>useState\<close> the handlers below write: the ordered layer
  list and the selection (\<open>null\<close> is \<open>None\<close>).  A functional update
  \<open>setLayers(prev => f prev)\<close> is the state passed through \<open>f\<close>.
\<close>

record app_state =
  layers :: "layer list"
  selectedLayerId :: "string option"

definition handleUpdateLayer :: "string \<Rightarrow> layer_partial \<Rightarrow> app_state \<Rightarrow> app_state" where
  "handleUpdateLayer i updates st =
     st\<lparr> layers := map (\<lambda>l. if id_l l = i then spread l updates else l) (layers st) \<rparr>"

definition handleDeleteLayer :: "string \<Rightarrow> app_state \<Rightarrow> app_state" where
  "handleDeleteLayer i st =
     (let st' = st\<lparr> layers := filter (\<lambda>l. id_l l \<noteq> i) (layers st) \<rparr>
      in if selectedLayerId st = Some i then st'\<lparr> selectedLayerId := None \<rparr> else st')"

definition handleFixLayer :: "string \<Rightarrow> app_state \<Rightarrow> app_state" where
  "handleFixLayer i st =
     (handleUpdateLayer i (no_updates\<lparr> p_isFixed := Some True \<rparr>) st)\<lparr> selectedLayerId := None \<rparr>"

section \<open>Interaction controller (the TattooLayer component)\<close>

datatype mode = Move | Scale | Rotate

text \<open>The anchor snapshot held in \<open>interactionRef.current\<close>.\<close>

record interaction =
  itype :: "mode option"
  startX :: real
  startY :: real
  originalX :: real
  originalY :: real
  originalWidth :: real
  originalHeight :: real
  originalScale :: real
  originalRotation :: real
  centerX :: real
  centerY :: real

text \<open>The part of a \<open>getBoundingClientRect()\<close> result that the handlers read.\<close>

record dom_rect =
  r_left :: real
  r_top :: real
  r_width :: real
  r_height :: real

text \<open>
  \<open>Math.atan2\<close> as the language defines it on finite arguments (signed zeros
  aside): the angle of the point \<open>(x, y)\<close>, in \<open>(-\<pi>, \<pi>]\<close>.
\<close>

definition atan2 :: "real \<Rightarrow> real \<Rightarrow> real" where
  "atan2 y x =
     (if 0 < x then arctan (y / x)
      else if x < 0 then (if 0 \<le> y then arctan (y / x) + pi else arctan (y / x) - pi)
      else if 0 < y then pi / 2
      else if y < 0 then - (pi / 2)
      else 0)"

text \<open>
  The \<open>%\<close> operator on numbers: the remainder of the division truncated towards
  zero, so the result has the sign of the dividend.
\<close>

definition js_rem :: "real \<Rightarrow> real \<Rightarrow> real" where
  "js_rem a b = a - b * of_int (if 0 \<le> a / b then \<lfloor>a / b\<rfloor> else \<lceil>a / b\<rceil>)"

text \<open>
  \<open>handleMouseDown\<close>: the component's state is the app state (through
  \<open>onSelect\<close>) and the interaction ref.  The pointer position is
  \<open>(clientX, clientY)\<close>; \<open>rect\<close> and \<open>canvasRect\<close> are the bounding rectangles
  of the layer's element and of the canvas.
\<close>

definition handleMouseDown ::
  "layer \<Rightarrow> mode \<Rightarrow> real \<Rightarrow> real \<Rightarrow> dom_rect \<Rightarrow> dom_rect
     \<Rightarrow> app_state \<times> interaction option \<Rightarrow> app_state \<times> interaction option" where
  "handleMouseDown lyr ty clientX clientY rect canvasRect s =
     (if isFixed lyr then s
      else (fst s \<lparr> selectedLayerId := Some (id_l lyr) \<rparr>,
            Some \<lparr> itype = Some ty,
                   startX = clientX,
                   startY = clientY,
                   originalX = x_l lyr,
                   originalY = y_l lyr,
                   originalWidth = r_width rect / scale lyr,
                   originalHeight = r_height rect / scale lyr,
                   originalScale = scale lyr,
                   originalRotation = rotation lyr,
                   centerX = r_left rect - r_left canvasRect + r_width rect / 2,
                   centerY = r_top rect - r_top canvasRect + r_height rect / 2 \<rparr>))"

text \<open>The partial that one pointer move hands to \<open>onUpdate\<close>, if any.\<close>

definition mouseMoveUpdates :: "interaction \<Rightarrow> real \<Rightarrow> real \<Rightarrow> layer_partial option" where
  "mouseMoveUpdates ia clientX clientY =
     (let dx = clientX - startX ia;
          dy = clientY - startY ia
      in case itype ia of
           Some Move \<Rightarrow>
             Some (no_updates\<lparr> p_x := Some (originalX ia + dx), p_y := Some (originalY ia + dy) \<rparr>)
         | Some Scale \<Rightarrow>
             (let scaleFactor = sqrt (dx ^ 2 + dy ^ 2) / 100;
                  newScale = (if clientX > startX ia then originalScale ia + scaleFactor
                              else originalScale ia - scaleFactor)
              in Some (no_updates\<lparr> p_scale := Some (max 0.1 newScale) \<rparr>))
         | Some Rotate \<Rightarrow>
             (let angle = atan2 (clientY - startY ia - centerY ia + originalY ia)
                                (clientX - startX ia - centerX ia + originalX ia) * (180 / pi)
              in Some (no_updates\<lparr> p_rotation := Some (js_rem (originalRotation ia + angle) 360) \<rparr>))
         | None \<Rightarrow> None)"

definition handleMouseMove ::
  "layer \<Rightarrow> real \<Rightarrow> real \<Rightarrow> app_state \<times> interaction option \<Rightarrow> app_state \<times> interaction option" where
  "handleMouseMove lyr clientX clientY s =
     (case snd s of
        None \<Rightarrow> s
      | Some ia \<Rightarrow>
          (case mouseMoveUpdates ia clientX clientY of
             None \<Rightarrow> s
           | Some u \<Rightarrow> (handleUpdateLayer (id_l lyr) u (fst s), snd s)))"

definition handleMouseUp :: "app_state \<times> interaction option \<Rightarrow> app_state \<times> interaction option" where
  "handleMouseUp s = (fst s, None)"

text \<open>
  The Scale rule in the words of the specification: magnitude
  \<open>sqrt(dx\<^sup>2 + dy\<^sup>2) / 100\<close>, sign \<open>+1\<close> if the pointer's x exceeds the anchor
  pointer's x and \<open>-1\<close> otherwise, floor \<open>0.1\<close>.
\<close>

definition spec_scale :: "real \<Rightarrow> real \<Rightarrow> real \<Rightarrow> real \<Rightarrow> real \<Rightarrow> real" where
  "spec_scale anchorScale anchorPointerX pointerX dx dy =
     max 0.1 (anchorScale
              + (if pointerX > anchorPointerX then 1 else - 1) * (sqrt (dx ^ 2 + dy ^ 2) / 100))"

section \<open>Properties panel\<close>

text \<open>
  What the panel renders: the placeholder text, or the four sliders and the
  two buttons acting on the selected layer.
\<close>

datatype panel_view = Placeholder | Controls string

definition selectedLayer :: "app_state \<Rightarrow> layer option" where
  "selectedLayer st =
     (case selectedLayerId st of
        None \<Rightarrow> None
      | Some i \<Rightarrow> find (\<lambda>l. id_l l = i) (layers st))"

definition PropertiesPanel :: "layer option \<Rightarrow> panel_view" where
  "PropertiesPanel sel =
     (case sel of
        None \<Rightarrow> Placeholder
      | Some l \<Rightarrow> if isFixed l then Placeholder else Controls (id_l l))"

section \<open>Export (handleExport)\<close>

text \<open>
  \<open>minX\<close> and \<open>minY\<close> start at \<open>Infinity\<close>, so the running minimum is a real or
  an infinity; \<open>maxX\<close> and \<open>maxY\<close> start at \<open>0\<close> and stay finite.
\<close>

datatype xnum = Fin real | PInf | NInf

fun xmin :: "xnum \<Rightarrow> real \<Rightarrow> xnum" where
  "xmin PInf v = Fin v"
| "xmin (Fin a) v = Fin (min a v)"
| "xmin NInf v = NInf"

fun sub_x :: "real \<Rightarrow> xnum \<Rightarrow> xnum" where
  "sub_x a (Fin b) = Fin (a - b)"
| "sub_x a PInf = NInf"
| "sub_x a NInf = PInf"

record bbox =
  minX :: xnum
  minY :: xnum
  maxX :: real
  maxY :: real

definition bbox_init :: bbox where
  "bbox_init = \<lparr> minX = PInf, minY = PInf, maxX = 0, maxY = 0 \<rparr>"

text \<open>The body of the \<open>forEach\<close> over the fixed layers.\<close>

definition bbox_step :: "layer \<Rightarrow> bbox \<Rightarrow> bbox" where
  "bbox_step l b =
     (let w = width l * scale l;
          h = height l * scale l
      in \<lparr> minX = xmin (minX b) (x_l l),
           minY = xmin (minY b) (y_l l),
           maxX = max (maxX b) (x_l l + w),
           maxY = max (maxY b) (y_l l + h) \<rparr>)"

text \<open>The values assigned to \<open>canvas.width\<close> and \<open>canvas.height\<close>.\<close>

record canvas =
  c_width :: xnum
  c_height :: xnum

text \<open>
  How a run of \<open>handleExport\<close> ends: with the alert, with the click on the
  download link, or with the \<open>await\<close> on \<open>Promise.all\<close> never resuming.  Each
  layer's promise is resolved in the \<open>onload\<close> handler of its image and nowhere
  else; \<open>loads s\<close> says whether the image with source \<open>s\<close> fires \<open>onload\<close>.
  The pixels drawn are not modelled.
\<close>

datatype export_outcome = Alerted string | Downloaded string canvas | Pending

definition no_fixed_message :: string where
  "no_fixed_message =
     ''No fixed tattoos to export. Please '' @ [CHR 39] @ ''fix'' @ [CHR 39]
       @ '' a tattoo using the properties panel first.''"

definition handleExport :: "(string \<Rightarrow> bool) \<Rightarrow> app_state \<Rightarrow> app_state \<times> export_outcome" where
  "handleExport loads st =
     (let fixedLayers = filter isFixed (layers st)
      in if length fixedLayers = 0 then (st, Alerted no_fixed_message)
         else
           (let b = fold bbox_step fixedLayers bbox_init;
                cv = \<lparr> c_width = sub_x (maxX b) (minX b), c_height = sub_x (maxY b) (minY b) \<rparr>
            in if list_all (\<lambda>l. loads (src l)) fixedLayers
               then (st, Downloaded ''tattoo-collage.png'' cv)
               else (st, Pending)))"

text \<open>
  The bounding box in the words of the specification: the componentwise
  minimum of the top-left corners and maximum of the bottom-right corners.
\<close>

definition spec_export_dims :: "layer list \<Rightarrow> real \<times> real" where
  "spec_export_dims ls =
     (Max (set (map (\<lambda>l. x_l l + width l * scale l) ls)) - Min (set (map x_l ls)),
      Max (set (map (\<lambda>l. y_l l + height l * scale l) ls)) - Min (set (map y_l ls)))"

section \<open>Drop to place (handleCanvasDrop)\<close>

text \<open>Decimal rendering of \<open>Date.now()\<close> inside the template string.\<close>

fun show_nat :: "nat \<Rightarrow> string" where
  "show_nat n =
     (if n < 10 then [''0123456789'' ! n]
      else show_nat (n div 10) @ [''0123456789'' ! (n mod 10)])"

declare show_nat.simps [simp del]

text \<open>
  The arithmetic of the drop is modelled in IEEE 754 binary64, the number
  type of the language, since the height is a quotient of a quotient and the
  roundings show.  A number is a finite double (held as the real it denotes),
  an infinity or \<open>NaN\<close>; the two zeros are not told apart (no divisor below
  can be \<open>-0\<close>).
\<close>

datatype jsnum = Num real | PosInfinity | NegInfinity | NaN

text \<open>Rounding to the nearest integer, ties to the even one.\<close>

definition round_half_even :: "real \<Rightarrow> int" where
  "round_half_even r =
     (let f = \<lfloor>r\<rfloor>; d = r - of_int f
      in if d < 1 / 2 then f
         else if 1 / 2 < d then f + 1
         else if even f then f else f + 1)"

text \<open>
  The spacing of the doubles around \<open>v \<noteq> 0\<close>: two to the power \<open>e - 52\<close> for
  the binary exponent \<open>e\<close> of \<open>v\<close>, taken as at least \<open>-1022\<close> (below that the
  doubles are subnormal and keep the spacing of the power \<open>-1074\<close>).
\<close>

definition quantum :: "real \<Rightarrow> real" where
  "quantum v = 2 powr (of_int (max \<lfloor>log 2 \<bar>v\<bar>\<rfloor> (- 1022)) - 52)"

text \<open>The multiple of the spacing nearest to \<open>v\<close>, ties to the even significand.\<close>

definition fl_val :: "real \<Rightarrow> real" where
  "fl_val v =
     (if v = 0 then 0
      else sgn v * of_int (round_half_even (\<bar>v\<bar> / quantum v)) * quantum v)"

text \<open>The result of an operation whose exact value is \<open>v\<close>: rounded, with overflow.\<close>

definition fl :: "real \<Rightarrow> jsnum" where
  "fl v =
     (let r = fl_val v
      in if 2 ^ 1024 \<le> r then PosInfinity
         else if r \<le> - (2 ^ 1024) then NegInfinity
         else Num r)"

text \<open>The operators \<open>-\<close> and \<open>/\<close> on numbers.\<close>

fun js_sub :: "jsnum \<Rightarrow> jsnum \<Rightarrow> jsnum" where
  "js_sub (Num a) (Num b) = fl (a - b)"
| "js_sub NaN _ = NaN"
| "js_sub _ NaN = NaN"
| "js_sub PosInfinity PosInfinity = NaN"
| "js_sub NegInfinity NegInfinity = NaN"
| "js_sub PosInfinity _ = PosInfinity"
| "js_sub NegInfinity _ = NegInfinity"
| "js_sub (Num a) PosInfinity = NegInfinity"
| "js_sub (Num a) NegInfinity = PosInfinity"

fun js_div :: "jsnum \<Rightarrow> jsnum \<Rightarrow> jsnum" where
  "js_div (Num a) (Num b) =
     (if b = 0 then (if a = 0 then NaN else if 0 < a then PosInfinity else NegInfinity)
      else fl (a / b))"
| "js_div NaN _ = NaN"
| "js_div _ NaN = NaN"
| "js_div (Num a) _ = Num 0"
| "js_div PosInfinity (Num b) = (if 0 \<le> b then PosInfinity else NegInfinity)"
| "js_div NegInfinity (Num b) = (if 0 \<le> b then NegInfinity else PosInfinity)"
| "js_div _ _ = NaN"

text \<open>
  How a drop ends.  \<open>Ignored\<close>: one of the two early returns, the state stays
  as it is.  \<open>DimensionsRejected\<close>: the awaited \<open>getImageDimensions\<close> rejects
  and nothing catches it, the state stays as it is.  \<open>Placed st'\<close>: a layer is
  appended and selected, \<open>st'\<close> is the new state.  \<open>PlacedNonFinite x y h\<close>: the
  layer appended and selected has the position \<open>(x, y)\<close> and the height \<open>h\<close>,
  not all of them finite (an image of natural width \<open>0\<close>); the layer record of
  this theory holds finite numbers, so that state is outside it.
\<close>

datatype drop_outcome =
  Ignored | DimensionsRejected | Placed app_state | PlacedNonFinite jsnum jsnum jsnum

text \<open>
  \<open>assetJSON\<close> is \<open>None\<close> for an empty transfer string and the parsed asset
  otherwise (the string is the one \<open>handleAssetDragStart\<close> wrote), \<open>canvasBounds\<close> is
  \<open>None\<close> when the canvas ref is not mounted, \<open>dims\<close> is the result of
  \<open>getImageDimensions\<close> (\<open>None\<close> when it rejects; the width and height of an
  image are unsigned 32-bit integers), \<open>clientX\<close>, \<open>clientY\<close> and the bounds are
  the doubles that the event and the rectangle carry, and \<open>now\<close> is
  \<open>Date.now()\<close>.
\<close>

definition handleCanvasDrop ::
  "asset option \<Rightarrow> dom_rect option \<Rightarrow> (nat \<times> nat) option \<Rightarrow> real \<Rightarrow> real \<Rightarrow> nat
     \<Rightarrow> app_state \<Rightarrow> drop_outcome" where
  "handleCanvasDrop assetJSON canvasBounds dims clientX clientY now st =
     (case assetJSON of
        None \<Rightarrow> Ignored
      | Some a \<Rightarrow>
          (case canvasBounds of
             None \<Rightarrow> Ignored
           | Some cb \<Rightarrow>
               (case dims of
                  None \<Rightarrow> DimensionsRejected
                | Some (w, h) \<Rightarrow>
                    (let aspectRatio = js_div (Num (real w)) (Num (real h));
                         initialWidth = Num 150;
                         new_x = js_sub (js_sub (Num clientX) (Num (r_left cb)))
                                        (js_div initialWidth (Num 2));
                         new_y = js_sub (js_sub (Num clientY) (Num (r_top cb)))
                                        (js_div (js_div initialWidth aspectRatio) (Num 2));
                         new_height = js_div initialWidth aspectRatio
                     in case (new_x, new_y, new_height) of
                          (Num xv, Num yv, Num hv) \<Rightarrow>
                            (let newLayer = \<lparr>
                                   id_l = ''layer-'' @ show_nat now,
                                   assetId = a_id a,
                                   src = a_src a,
                                   originalSrc = a_src a,
                                   x_l = xv,
                                   y_l = yv,
                                   width = 150,
                                   height = hv,
                                   scale = 1,
                                   rotation = 0,
                                   brightness = 100,
                                   contrast = 100,
                                   isFixed = False \<rparr>
                             in Placed (st\<lparr> layers := layers st @ [newLayer],
                                            selectedLayerId := Some (id_l newLayer) \<rparr>))
                        | _ \<Rightarrow> PlacedNonFinite new_x new_y new_height))))"

section \<open>Sample data\<close>

definition sample_layer :: layer where
  "sample_layer = \<lparr> id_l = ''layer-1'', assetId = ''dragon-1'', src = ''dragon.png'',
      originalSrc = ''dragon.png'', x_l = 10, y_l = 20, width = 150, height = 75,
      scale = 1, rotation = 0, brightness = 100, contrast = 100, isFixed = False \<rparr>"

definition sample_state :: app_state where
  "sample_state = \<lparr> layers = [sample_layer, sample_layer\<lparr> id_l := ''layer-2'', isFixed := True \<rparr>],
      selectedLayerId = Some ''layer-1'' \<rparr>"

section \<open>Layer store: theorems\<close>

lemma spread_no_updates: "spread l no_updates = l"
  by (simp add: spread_def no_updates_def)

lemma map_spread_no_updates:
  "map (\<lambda>l. if id_l l = i then spread l no_updates else l) ls = ls"
  by (induction ls) (simp_all add: spread_no_updates)

lemma handleUpdateLayer_no_updates: "handleUpdateLayer i no_updates st = st"
  by (simp add: handleUpdateLayer_def map_spread_no_updates)

lemma nth_handleUpdateLayer:
  "k < length (layers st) \<Longrightarrow>
     layers (handleUpdateLayer i u st) ! k =
       (if id_l (layers st ! k) = i then spread (layers st ! k) u else layers st ! k)"
  by (simp add: handleUpdateLayer_def)

lemma map_unknown_id:
  "i \<notin> id_l ` set ls \<Longrightarrow> map (\<lambda>l. if id_l l = i then f l else l) ls = ls"
  by (induction ls) auto

lemma filter_unknown_id:
  "i \<notin> id_l ` set ls \<Longrightarrow> filter (\<lambda>l. id_l l \<noteq> i) ls = ls"
  by (induction ls) auto

lemma handleUpdateLayer_unknown:
  "i \<notin> id_l ` set (layers st) \<Longrightarrow> handleUpdateLayer i u st = st"
  by (simp add: handleUpdateLayer_def map_unknown_id)

text \<open>
  Claim C7.  \<open>updateLayer(id, partial)\<close> keeps the length and the order of the
  layer list and the selection; a layer with another id is untouched; a layer
  with that id becomes the spread of itself and the partial, in which a field
  the partial does not provide keeps its value and a field it provides takes
  the provided value; with the empty partial the layer, and the whole state,
  is unchanged.
\<close>

theorem updateLayer_merges_only_provided_fields:
  "length (layers (handleUpdateLayer i u st)) = length (layers st)
   \<and> selectedLayerId (handleUpdateLayer i u st) = selectedLayerId st
   \<and> (\<forall>k<length (layers st). id_l (layers st ! k) \<noteq> i \<longrightarrow>
          layers (handleUpdateLayer i u st) ! k = layers st ! k)
   \<and> (\<forall>k<length (layers st). id_l (layers st ! k) = i \<longrightarrow>
          layers (handleUpdateLayer i u st) ! k = spread (layers st ! k) u)
   \<and> (p_id u = None \<longrightarrow> id_l (spread l u) = id_l l)
   \<and> (p_assetId u = None \<longrightarrow> assetId (spread l u) = assetId l)
   \<and> (p_src u = None \<longrightarrow> src (spread l u) = src l)
   \<and> (p_originalSrc u = None \<longrightarrow> originalSrc (spread l u) = originalSrc l)
   \<and> (p_x u = None \<longrightarrow> x_l (spread l u) = x_l l)
   \<and> (p_y u = None \<longrightarrow> y_l (spread l u) = y_l l)
   \<and> (p_width u = None \<longrightarrow> width (spread l u) = width l)
   \<and> (p_height u = None \<longrightarrow> height (spread l u) = height l)
   \<and> (p_scale u = None \<longrightarrow> scale (spread l u) = scale l)
   \<and> (p_rotation u = None \<longrightarrow> rotation (spread l u) = rotation l)
   \<and> (p_brightness u = None \<longrightarrow> brightness (spread l u) = brightness l)
   \<and> (p_contrast u = None \<longrightarrow> contrast (spread l u) = contrast l)
   \<and> (p_isFixed u = None \<longrightarrow> isFixed (spread l u) = isFixed l)
   \<and> (\<forall>v. p_id u = Some v \<longrightarrow> id_l (spread l u) = v)
   \<and> (\<forall>v. p_assetId u = Some v \<longrightarrow> assetId (spread l u) = v)
   \<and> (\<forall>v. p_src u = Some v \<longrightarrow> src (spread l u) = v)
   \<and> (\<forall>v. p_originalSrc u = Some v \<longrightarrow> originalSrc (spread l u) = v)
   \<and> (\<forall>v. p_x u = Some v \<longrightarrow> x_l (spread l u) = v)
   \<and> (\<forall>v. p_y u = Some v \<longrightarrow> y_l (spread l u) = v)
   \<and> (\<forall>v. p_width u = Some v \<longrightarrow> width (spread l u) = v)
   \<and> (\<forall>v. p_height u = Some v \<longrightarrow> height (spread l u) = v)
   \<and> (\<forall>v. p_scale u = Some v \<longrightarrow> scale (spread l u) = v)
   \<and> (\<forall>v. p_rotation u = Some v \<longrightarrow> rotation (spread l u) = v)
   \<and> (\<forall>v. p_brightness u = Some v \<longrightarrow> brightness (spread l u) = v)
   \<and> (\<forall>v. p_contrast u = Some v \<longrightarrow> contrast (spread l u) = v)
   \<and> (\<forall>v. p_isFixed u = Some v \<longrightarrow> isFixed (spread l u) = v)
   \<and> spread l no_updates = l
   \<and> handleUpdateLayer i no_updates st = st"
proof -
  have A: "length (layers (handleUpdateLayer i u st)) = length (layers st)"
    and B: "selectedLayerId (handleUpdateLayer i u st) = selectedLayerId st"
    by (simp_all add: handleUpdateLayer_def)
  have C: "\<forall>k<length (layers st). id_l (layers st ! k) \<noteq> i \<longrightarrow>
          layers (handleUpdateLayer i u st) ! k = layers st ! k"
    by (simp add: nth_handleUpdateLayer)
  have D: "\<forall>k<length (layers st). id_l (layers st ! k) = i \<longrightarrow>
          layers (handleUpdateLayer i u st) ! k = spread (layers st ! k) u"
    by (simp add: nth_handleUpdateLayer)
  show ?thesis
    by (intro conjI A B C D handleUpdateLayer_no_updates spread_no_updates)
       (simp_all add: spread_def)
qed

theorem updateLayer_merges_only_provided_fields_witness:
  "(1::nat) < length (layers sample_state)
   \<and> id_l (layers sample_state ! 1) \<noteq> ''layer-1''
   \<and> layers (handleUpdateLayer ''layer-1'' (no_updates\<lparr> p_x := Some 5 \<rparr>) sample_state) ! 1
       = layers sample_state ! 1
   \<and> (0::nat) < length (layers sample_state)
   \<and> id_l (layers sample_state ! 0) = ''layer-1''
   \<and> layers (handleUpdateLayer ''layer-1'' (no_updates\<lparr> p_x := Some 5 \<rparr>) sample_state) ! 0
       = spread (layers sample_state ! 0) (no_updates\<lparr> p_x := Some 5 \<rparr>)
   \<and> p_y (no_updates\<lparr> p_x := Some 5 \<rparr>) = None
   \<and> y_l (spread sample_layer (no_updates\<lparr> p_x := Some 5 \<rparr>)) = y_l sample_layer
   \<and> p_x (no_updates\<lparr> p_x := Some 5 \<rparr>) = Some 5
   \<and> x_l (spread sample_layer (no_updates\<lparr> p_x := Some 5 \<rparr>)) = 5"
proof -
  note T = updateLayer_merges_only_provided_fields
    [of "''layer-1''" "no_updates\<lparr> p_x := Some 5 \<rparr>" sample_state sample_layer]
  have len: "length (layers sample_state) = 2"
    by (simp add: sample_state_def)
  have i0: "id_l (layers sample_state ! 0) = ''layer-1''"
    and i1: "id_l (layers sample_state ! 1) \<noteq> ''layer-1''"
    by (simp_all add: sample_state_def sample_layer_def)
  have py: "p_y (no_updates\<lparr> p_x := Some 5 \<rparr>) = None"
    and px: "p_x (no_updates\<lparr> p_x := Some 5 \<rparr>) = Some 5"
    by (simp_all add: no_updates_def)
  from T len i1
  have a: "layers (handleUpdateLayer ''layer-1'' (no_updates\<lparr> p_x := Some 5 \<rparr>) sample_state) ! 1
       = layers sample_state ! 1"
    by simp
  from T len i0
  have b: "layers (handleUpdateLayer ''layer-1'' (no_updates\<lparr> p_x := Some 5 \<rparr>) sample_state) ! 0
       = spread (layers sample_state ! 0) (no_updates\<lparr> p_x := Some 5 \<rparr>)"
    by simp
  from T py
  have c: "y_l (spread sample_layer (no_updates\<lparr> p_x := Some 5 \<rparr>)) = y_l sample_layer"
    by simp
  from T px
  have d: "x_l (spread sample_layer (no_updates\<lparr> p_x := Some 5 \<rparr>)) = 5"
    by simp
  from len i0 i1 py px a b c d show ?thesis by simp
qed

text \<open>
  Claim C10.  The fix action ends with the selection set to \<open>null\<close>, whatever
  the id and whatever was selected: the handler clears the selection without
  comparing it with the id.  Its effect on the layer list is to set \<open>isFixed\<close>
  on the layers with that id.
\<close>

theorem fix_always_clears_selection:
  "selectedLayerId (handleFixLayer i st) = None
   \<and> layers (handleFixLayer i st)
       = map (\<lambda>l. if id_l l = i then l\<lparr> isFixed := True \<rparr> else l) (layers st)"
  by (simp add: handleFixLayer_def handleUpdateLayer_def spread_def no_updates_def)

text \<open>
  At the sample state the selection is \<open>layer-1\<close>; fixing \<open>layer-2\<close>, or an id
  that no layer has, loses it.
\<close>

theorem fix_always_clears_selection_witness:
  "selectedLayerId sample_state = Some ''layer-1''
   \<and> selectedLayerId (handleFixLayer ''layer-2'' sample_state) = None
   \<and> ''ghost'' \<notin> id_l ` set (layers sample_state)
   \<and> selectedLayerId (handleFixLayer ''ghost'' sample_state) = None"
  using fix_always_clears_selection [of "''layer-2''" sample_state]
    fix_always_clears_selection [of "''ghost''" sample_state]
  by (simp add: sample_state_def sample_layer_def)

text \<open>
  Claim C8, as the code has it.  For an id that no layer has: \<open>updateLayer\<close>
  leaves the whole state as it is; \<open>deleteLayer\<close> leaves the layer list as it
  is, and the selection too unless the selection is that very id; \<open>setFixed\<close>
  leaves the layer list as it is and sets the selection to \<open>null\<close>.  None of
  the three has an error outcome.
\<close>

theorem unknown_id_handlers:
  "i \<notin> id_l ` set (layers st) \<Longrightarrow>
     handleUpdateLayer i u st = st
     \<and> layers (handleDeleteLayer i st) = layers st
     \<and> (selectedLayerId st \<noteq> Some i \<longrightarrow> handleDeleteLayer i st = st)
     \<and> layers (handleFixLayer i st) = layers st
     \<and> selectedLayerId (handleFixLayer i st) = None"
  by (simp add: handleUpdateLayer_unknown handleDeleteLayer_def handleFixLayer_def
        filter_unknown_id Let_def)

theorem unknown_id_handlers_witness:
  "''ghost'' \<notin> id_l ` set (layers sample_state)
   \<and> handleUpdateLayer ''ghost'' (no_updates\<lparr> p_x := Some 5 \<rparr>) sample_state = sample_state
   \<and> selectedLayerId sample_state \<noteq> Some ''ghost''
   \<and> handleDeleteLayer ''ghost'' sample_state = sample_state
   \<and> layers (handleFixLayer ''ghost'' sample_state) = layers sample_state
   \<and> selectedLayerId (handleFixLayer ''ghost'' sample_state) = None"
proof -
  have h: "''ghost'' \<notin> id_l ` set (layers sample_state)"
    by (simp add: sample_state_def sample_layer_def)
  have s: "selectedLayerId sample_state \<noteq> Some ''ghost''"
    by (simp add: sample_state_def)
  from h s unknown_id_handlers [OF h, of "no_updates\<lparr> p_x := Some 5 \<rparr>"]
  show ?thesis by simp
qed

text \<open>
  Claim C8, as stated, fails for \<open>setFixed\<close>: at the sample state no layer has
  the id \<open>ghost\<close>, and fixing it changes the selection.
\<close>

theorem fix_unknown_id_counterexample:
  "''ghost'' \<notin> id_l ` set (layers sample_state)
   \<and> selectedLayerId (handleFixLayer ''ghost'' sample_state) \<noteq> selectedLayerId sample_state"
  by (simp add: handleFixLayer_def sample_state_def sample_layer_def)

section \<open>Interaction controller and properties panel: theorems\<close>

text \<open>
  The guards that the code has for a fixed layer: a pointer-down on it returns
  before selecting it or taking an anchor, and the properties panel renders
  the placeholder instead of the sliders and buttons.
\<close>

lemma fixed_layer_guards:
  "isFixed lyr \<Longrightarrow>
     handleMouseDown lyr ty clientX clientY rect canvasRect s = s
     \<and> PropertiesPanel (Some lyr) = Placeholder"
  by (simp add: handleMouseDown_def PropertiesPanel_def)

text \<open>
  Claim C1 fails on the code.  Neither \<open>updateLayer\<close> nor the pointer-move
  handler reads \<open>isFixed\<close>, and the fix action leaves an open interaction
  session open.  A pointer-down at \<open>(400, 150)\<close> on the sample layer (at
  \<open>(10, 20)\<close>, not yet fixed) opens a Move session; the layer is then fixed;
  the next pointer move, to \<open>(430, 165)\<close>, stores \<open>x = 40\<close> and \<open>y = 35\<close> in
  the fixed layer.  A direct \<open>updateLayer\<close> with \<open>{x: 99}\<close> on the fixed layer
  stores \<open>x = 99\<close>.
\<close>

theorem fixed_layer_still_updated:
  "handleMouseDown sample_layer Move 400 150
       \<lparr> r_left = 362, r_top = 84, r_width = 150, r_height = 75 \<rparr>
       \<lparr> r_left = 352, r_top = 64, r_width = 800, r_height = 600 \<rparr>
       (\<lparr> layers = [sample_layer], selectedLayerId = None \<rparr>, None)
     = (\<lparr> layers = [sample_layer], selectedLayerId = Some ''layer-1'' \<rparr>,
        Some \<lparr> itype = Some Move, startX = 400, startY = 150, originalX = 10, originalY = 20,
               originalWidth = 150, originalHeight = 75, originalScale = 1, originalRotation = 0,
               centerX = 85, centerY = 57.5 \<rparr>)
   \<and> handleFixLayer ''layer-1'' \<lparr> layers = [sample_layer], selectedLayerId = Some ''layer-1'' \<rparr>
     = \<lparr> layers = [sample_layer\<lparr> isFixed := True \<rparr>], selectedLayerId = None \<rparr>
   \<and> x_l (sample_layer\<lparr> isFixed := True \<rparr>) = 10
   \<and> y_l (sample_layer\<lparr> isFixed := True \<rparr>) = 20
   \<and> handleMouseMove sample_layer 430 165
        (\<lparr> layers = [sample_layer\<lparr> isFixed := True \<rparr>], selectedLayerId = None \<rparr>,
         Some \<lparr> itype = Some Move, startX = 400, startY = 150, originalX = 10, originalY = 20,
               originalWidth = 150, originalHeight = 75, originalScale = 1, originalRotation = 0,
               centerX = 85, centerY = 57.5 \<rparr>)
     = (\<lparr> layers = [sample_layer\<lparr> isFixed := True, x_l := 40, y_l := 35 \<rparr>],
          selectedLayerId = None \<rparr>,
        Some \<lparr> itype = Some Move, startX = 400, startY = 150, originalX = 10, originalY = 20,
               originalWidth = 150, originalHeight = 75, originalScale = 1, originalRotation = 0,
               centerX = 85, centerY = 57.5 \<rparr>)
   \<and> handleUpdateLayer ''layer-1'' (no_updates\<lparr> p_x := Some 99 \<rparr>)
        \<lparr> layers = [sample_layer\<lparr> isFixed := True \<rparr>], selectedLayerId = None \<rparr>
     = \<lparr> layers = [sample_layer\<lparr> isFixed := True, x_l := 99 \<rparr>], selectedLayerId = None \<rparr>"
  by (simp add: handleMouseDown_def handleFixLayer_def handleMouseMove_def mouseMoveUpdates_def
        handleUpdateLayer_def spread_def no_updates_def sample_layer_def)

lemma spec_scale_floor: "0.1 \<le> spec_scale a px0 px dx dy"
  by (simp add: spec_scale_def)

lemma mouseMoveUpdates_scale:
  "itype ia = Some Scale \<Longrightarrow>
     mouseMoveUpdates ia clientX clientY =
       Some (no_updates\<lparr> p_scale := Some (spec_scale (originalScale ia) (startX ia) clientX
                                            (clientX - startX ia) (clientY - startY ia)) \<rparr>)"
  by (simp add: mouseMoveUpdates_def spec_scale_def Let_def)

text \<open>
  Claim C5.  In Scale mode the partial handed to the store carries exactly
  \<open>max(0.1, anchor scale + sign * sqrt(dx\<^sup>2 + dy\<^sup>2) / 100)\<close>, with the sign
  \<open>+1\<close> when the pointer's x exceeds the anchor pointer's x and \<open>-1\<close>
  otherwise; every layer with the target id has that scale after the move;
  and the value is at least \<open>0.1\<close>, for every anchor scale and every pointer
  position.
\<close>

theorem scale_update_is_floored_formula:
  assumes "itype ia = Some Scale"
  shows "mouseMoveUpdates ia clientX clientY =
       Some (no_updates\<lparr> p_scale := Some (spec_scale (originalScale ia) (startX ia) clientX
                                            (clientX - startX ia) (clientY - startY ia)) \<rparr>)
   \<and> (\<forall>k<length (layers st). id_l (layers st ! k) = id_l lyr \<longrightarrow>
         scale (layers (fst (handleMouseMove lyr clientX clientY (st, Some ia))) ! k)
           = spec_scale (originalScale ia) (startX ia) clientX
               (clientX - startX ia) (clientY - startY ia))
   \<and> 0.1 \<le> spec_scale (originalScale ia) (startX ia) clientX
               (clientX - startX ia) (clientY - startY ia)"
proof (intro conjI)
  show "mouseMoveUpdates ia clientX clientY =
       Some (no_updates\<lparr> p_scale := Some (spec_scale (originalScale ia) (startX ia) clientX
                                            (clientX - startX ia) (clientY - startY ia)) \<rparr>)"
    using assms by (rule mouseMoveUpdates_scale)
  show "\<forall>k<length (layers st). id_l (layers st ! k) = id_l lyr \<longrightarrow>
         scale (layers (fst (handleMouseMove lyr clientX clientY (st, Some ia))) ! k)
           = spec_scale (originalScale ia) (startX ia) clientX
               (clientX - startX ia) (clientY - startY ia)"
    using assms
    by (simp add: mouseMoveUpdates_scale handleMouseMove_def nth_handleUpdateLayer
          spread_def no_updates_def)
  show "0.1 \<le> spec_scale (originalScale ia) (startX ia) clientX
               (clientX - startX ia) (clientY - startY ia)"
    by (rule spec_scale_floor)
qed

lemma sqrt_2500: "sqrt 2500 = 50"
  using real_sqrt_abs [of 50] by simp

text \<open>
  A drag from \<open>(100, 100)\<close> to \<open>(130, 140)\<close> at anchor scale \<open>1\<close> stores
  \<open>1.5\<close>, in the partial and in the layer; a drag straight down to
  \<open>(100, 400)\<close> would give \<open>-2\<close> and stores the floor \<open>0.1\<close>.
\<close>

theorem scale_update_is_floored_formula_witness:
  "itype \<lparr> itype = Some Scale, startX = 100, startY = 100, originalX = 10, originalY = 20,
            originalWidth = 150, originalHeight = 75, originalScale = 1, originalRotation = 0,
            centerX = 85, centerY = 57.5 \<rparr> = Some Scale
   \<and> mouseMoveUpdates \<lparr> itype = Some Scale, startX = 100, startY = 100, originalX = 10,
            originalY = 20, originalWidth = 150, originalHeight = 75, originalScale = 1,
            originalRotation = 0, centerX = 85, centerY = 57.5 \<rparr> 130 140
       = Some (no_updates\<lparr> p_scale := Some 1.5 \<rparr>)
   \<and> (0::nat) < length (layers sample_state)
   \<and> id_l (layers sample_state ! 0) = id_l sample_layer
   \<and> scale (layers (fst (handleMouseMove sample_layer 130 140
        (sample_state,
         Some \<lparr> itype = Some Scale, startX = 100, startY = 100, originalX = 10,
            originalY = 20, originalWidth = 150, originalHeight = 75, originalScale = 1,
            originalRotation = 0, centerX = 85, centerY = 57.5 \<rparr>))) ! 0) = 1.5
   \<and> mouseMoveUpdates \<lparr> itype = Some Scale, startX = 100, startY = 100, originalX = 10,
            originalY = 20, originalWidth = 150, originalHeight = 75, originalScale = 1,
            originalRotation = 0, centerX = 85, centerY = 57.5 \<rparr> 100 400
       = Some (no_updates\<lparr> p_scale := Some 0.1 \<rparr>)"
proof -
  let ?ia = "\<lparr> itype = Some Scale, startX = 100, startY = 100, originalX = 10, originalY = 20,
            originalWidth = 150, originalHeight = 75, originalScale = 1, originalRotation = 0,
            centerX = 85, centerY = 57.5 \<rparr>"
  have h: "itype ?ia = Some Scale" by simp
  have k: "(0::nat) < length (layers sample_state)"
    and i: "id_l (layers sample_state ! 0) = id_l sample_layer"
    by (simp_all add: sample_state_def)
  have a: "spec_scale 1 100 130 (130 - 100) (140 - 100) = 1.5"
    by (simp add: spec_scale_def sqrt_2500)
  have b: "spec_scale 1 100 100 (100 - 100) (400 - 100) = 0.1"
    by (simp add: spec_scale_def)
  from scale_update_is_floored_formula [OF h, of 130 140 sample_state sample_layer]
    scale_update_is_floored_formula [OF h, of 100 400 sample_state sample_layer] a b h k i
  show ?thesis by simp
qed

text \<open>
  The remainder by \<open>360\<close>: in \<open>[0, 360)\<close> for a dividend that is not
  negative, the dividend itself for one in \<open>(-360, 0)\<close>.
\<close>

lemma js_rem_360_nonneg:
  assumes "0 \<le> a"
  shows "0 \<le> js_rem a 360 \<and> js_rem a 360 < 360"
proof -
  have q: "0 \<le> a / 360" using assms by simp
  have r: "js_rem a 360 = a - 360 * of_int \<lfloor>a / 360\<rfloor>"
    using q by (simp add: js_rem_def)
  have "of_int \<lfloor>a / 360\<rfloor> \<le> a / 360" and "a / 360 < of_int \<lfloor>a / 360\<rfloor> + 1"
    by linarith+
  then show ?thesis unfolding r by linarith
qed

lemma js_rem_360_small_neg:
  assumes "- 360 < a" and "a < 0"
  shows "js_rem a 360 = a"
proof -
  have q: "\<not> 0 \<le> a / 360" using assms by simp
  have "\<lceil>a / 360\<rceil> = 0"
    using assms by (simp add: ceiling_eq_iff)
  then show ?thesis using q by (simp add: js_rem_def)
qed

lemma atan2_range: "- pi < atan2 y x \<and> atan2 y x \<le> pi"
proof -
  have b: "- (pi / 2) < arctan (y / x)" "arctan (y / x) < pi / 2"
    by (rule arctan_lbound, rule arctan_ubound)
  have p: "0 < pi" by (rule pi_gt_zero)
  consider (pos) "0 < x" | (neg_up) "x < 0" "0 \<le> y" | (neg_down) "x < 0" "y < 0" | (zero) "x = 0"
    by linarith
  then show ?thesis
  proof cases
    case pos
    then show ?thesis using b p by (simp add: atan2_def)
  next
    case neg_up
    then have "y / x \<le> 0" by (simp add: divide_nonneg_neg)
    then have "arctan (y / x) \<le> 0" by (simp add: arctan_le_zero_iff)
    then show ?thesis using neg_up b p by (simp add: atan2_def)
  next
    case neg_down
    then have "0 < y / x" by (simp add: divide_neg_neg)
    then have "0 < arctan (y / x)" by (simp add: zero_less_arctan_iff)
    then show ?thesis using neg_down b p by (simp add: atan2_def)
  next
    case zero
    then have "atan2 y x = pi / 2 \<or> atan2 y x = - (pi / 2) \<or> atan2 y x = 0"
      by (simp add: atan2_def)
    then show ?thesis using p by linarith
  qed
qed

lemma degrees_range: "- 180 < atan2 y x * (180 / pi) \<and> atan2 y x * (180 / pi) \<le> 180"
proof -
  have p: "0 < pi" by (rule pi_gt_zero)
  from atan2_range [of y x] have "- pi < atan2 y x" and "atan2 y x \<le> pi"
    by simp_all
  then have "- pi * (180 / pi) < atan2 y x * (180 / pi)"
    and "atan2 y x * (180 / pi) \<le> pi * (180 / pi)"
    using p by (simp_all add: field_simps)
  then show ?thesis using p by simp
qed

text \<open>
  What the Rotate rule does guarantee from an anchor rotation in \<open>[0, 360)\<close>:
  a stored rotation in \<open>(-180, 360)\<close>.
\<close>

lemma rotate_update_range:
  assumes "itype ia = Some Rotate" and "0 \<le> originalRotation ia" and "originalRotation ia < 360"
  shows "\<exists>r. mouseMoveUpdates ia clientX clientY = Some (no_updates\<lparr> p_rotation := Some r \<rparr>)
           \<and> - 180 < r \<and> r < 360"
proof -
  define angle where "angle = atan2 (clientY - startY ia - centerY ia + originalY ia)
                                (clientX - startX ia - centerX ia + originalX ia) * (180 / pi)"
  have u: "mouseMoveUpdates ia clientX clientY
      = Some (no_updates\<lparr> p_rotation := Some (js_rem (originalRotation ia + angle) 360) \<rparr>)"
    using assms(1) by (simp add: mouseMoveUpdates_def angle_def Let_def)
  have a: "- 180 < angle" "angle \<le> 180"
    unfolding angle_def using degrees_range by simp_all
  have "- 180 < js_rem (originalRotation ia + angle) 360
        \<and> js_rem (originalRotation ia + angle) 360 < 360"
  proof (cases "0 \<le> originalRotation ia + angle")
    case True
    from js_rem_360_nonneg [OF True] show ?thesis by linarith
  next
    case False
    then have "js_rem (originalRotation ia + angle) 360 = originalRotation ia + angle"
      using a assms(2) by (intro js_rem_360_small_neg) linarith+
    then show ?thesis using False a assms(2) by linarith
  qed
  with u show ?thesis by blast
qed

lemma ceiling_neg_quarter: "\<lceil>- (1 / 4 :: real)\<rceil> = 0"
  by (simp add: ceiling_eq_iff)

text \<open>
  Claim C2 fails on the code.  The sample layer sits at \<open>(10, 20)\<close> with
  size \<open>150 \<times> 75\<close> and rotation \<open>0\<close>; the canvas is at \<open>(352, 64)\<close>.  A
  pointer-down on the rotate handle at \<open>(437, 72)\<close> takes the anchor, and the
  move to \<open>(512, 72)\<close> computes \<open>atan2(-37.5, 0)\<close>, that is \<open>-90\<close> degrees, and
  stores \<open>(0 + -90) % 360 = -90\<close>: the remainder keeps the sign of the
  dividend.
\<close>

theorem rotate_update_stores_negative_rotation:
  "handleMouseDown sample_layer Rotate 437 72
       \<lparr> r_left = 362, r_top = 84, r_width = 150, r_height = 75 \<rparr>
       \<lparr> r_left = 352, r_top = 64, r_width = 800, r_height = 600 \<rparr>
       (\<lparr> layers = [sample_layer], selectedLayerId = None \<rparr>, None)
     = (\<lparr> layers = [sample_layer], selectedLayerId = Some ''layer-1'' \<rparr>,
        Some \<lparr> itype = Some Rotate, startX = 437, startY = 72, originalX = 10, originalY = 20,
               originalWidth = 150, originalHeight = 75, originalScale = 1, originalRotation = 0,
               centerX = 85, centerY = 57.5 \<rparr>)
   \<and> rotation (layers (fst (handleMouseMove sample_layer 512 72
        (\<lparr> layers = [sample_layer], selectedLayerId = Some ''layer-1'' \<rparr>,
         Some \<lparr> itype = Some Rotate, startX = 437, startY = 72, originalX = 10, originalY = 20,
               originalWidth = 150, originalHeight = 75, originalScale = 1, originalRotation = 0,
               centerX = 85, centerY = 57.5 \<rparr>))) ! 0) = - 90"
  by (simp add: handleMouseDown_def handleMouseMove_def mouseMoveUpdates_def atan2_def
        js_rem_def ceiling_neg_quarter handleUpdateLayer_def spread_def no_updates_def
        sample_layer_def)

section \<open>Export: theorems\<close>

text \<open>
  Claim C6.  When no layer is fixed, the export ends with the alert: the
  download link is never clicked, and the layer list and the selection are the
  ones it started with.
\<close>

theorem export_without_fixed_layers_alerts:
  "filter isFixed (layers st) = [] \<Longrightarrow> handleExport loads st = (st, Alerted no_fixed_message)"
  by (simp add: handleExport_def)

theorem export_without_fixed_layers_alerts_witness:
  "filter isFixed (layers \<lparr> layers = [sample_layer], selectedLayerId = Some ''layer-1'' \<rparr>) = []
   \<and> handleExport (\<lambda>s. True) \<lparr> layers = [sample_layer], selectedLayerId = Some ''layer-1'' \<rparr>
       = (\<lparr> layers = [sample_layer], selectedLayerId = Some ''layer-1'' \<rparr>, Alerted no_fixed_message)"
proof -
  have h: "filter isFixed (layers \<lparr> layers = [sample_layer], selectedLayerId = Some ''layer-1'' \<rparr>) = []"
    by (simp add: sample_layer_def)
  from h export_without_fixed_layers_alerts [OF h, of "\<lambda>s. True"] show ?thesis
    by simp
qed

text \<open>
  The bounding box that the loop over the fixed layers computes: the minima
  are those of the top-left corners, the maxima are those of the bottom-right
  corners and of the initial \<open>0\<close>.
\<close>

lemma fold_bbox_maxX:
  "maxX (fold bbox_step ls b) = Max (insert (maxX b) ((\<lambda>l. x_l l + width l * scale l) ` set ls))"
proof (induction ls arbitrary: b)
  case Nil
  then show ?case by simp
next
  case (Cons a ls)
  have "maxX (bbox_step a b) = max (maxX b) (x_l a + width a * scale a)"
    by (simp add: bbox_step_def Let_def)
  with Cons.IH [of "bbox_step a b"] show ?case
    by (cases "ls = []") (simp_all add: max.commute max.left_commute max.assoc insert_commute)
qed

lemma fold_bbox_maxY:
  "maxY (fold bbox_step ls b) = Max (insert (maxY b) ((\<lambda>l. y_l l + height l * scale l) ` set ls))"
proof (induction ls arbitrary: b)
  case Nil
  then show ?case by simp
next
  case (Cons a ls)
  have "maxY (bbox_step a b) = max (maxY b) (y_l a + height a * scale a)"
    by (simp add: bbox_step_def Let_def)
  with Cons.IH [of "bbox_step a b"] show ?case
    by (cases "ls = []") (simp_all add: max.commute max.left_commute max.assoc insert_commute)
qed

lemma fold_bbox_minX_fin:
  "minX b = Fin m \<Longrightarrow> minX (fold bbox_step ls b) = Fin (Min (insert m (x_l ` set ls)))"
proof (induction ls arbitrary: b m)
  case Nil
  then show ?case by simp
next
  case (Cons a ls)
  have "minX (bbox_step a b) = Fin (min m (x_l a))"
    using Cons.prems by (simp add: bbox_step_def Let_def)
  from Cons.IH [OF this] show ?case
    by (cases "ls = []") (simp_all add: min.commute min.left_commute min.assoc insert_commute)
qed

lemma fold_bbox_minX:
  "ls \<noteq> [] \<Longrightarrow> minX b = PInf \<Longrightarrow> minX (fold bbox_step ls b) = Fin (Min (x_l ` set ls))"
proof (cases ls)
  case Nil
  assume "ls \<noteq> []"
  with Nil show ?thesis by simp
next
  case (Cons a as)
  assume p: "minX b = PInf"
  have "minX (bbox_step a b) = Fin (x_l a)"
    using p by (simp add: bbox_step_def Let_def)
  from fold_bbox_minX_fin [OF this, of as] Cons show ?thesis
    by simp
qed

lemma fold_bbox_minY_fin:
  "minY b = Fin m \<Longrightarrow> minY (fold bbox_step ls b) = Fin (Min (insert m (y_l ` set ls)))"
proof (induction ls arbitrary: b m)
  case Nil
  then show ?case by simp
next
  case (Cons a ls)
  have "minY (bbox_step a b) = Fin (min m (y_l a))"
    using Cons.prems by (simp add: bbox_step_def Let_def)
  from Cons.IH [OF this] show ?case
    by (cases "ls = []") (simp_all add: min.commute min.left_commute min.assoc insert_commute)
qed

lemma fold_bbox_minY:
  "ls \<noteq> [] \<Longrightarrow> minY b = PInf \<Longrightarrow> minY (fold bbox_step ls b) = Fin (Min (y_l ` set ls))"
proof (cases ls)
  case Nil
  assume "ls \<noteq> []"
  with Nil show ?thesis by simp
next
  case (Cons a as)
  assume p: "minY b = PInf"
  have "minY (bbox_step a b) = Fin (y_l a)"
    using p by (simp add: bbox_step_def Let_def)
  from fold_bbox_minY_fin [OF this, of as] Cons show ?thesis
    by simp
qed

lemma export_canvas_dims:
  assumes "filter isFixed (layers st) \<noteq> []"
    and "list_all (\<lambda>l. loads (src l)) (filter isFixed (layers st))"
  shows "handleExport loads st =
     (st, Downloaded ''tattoo-collage.png''
        \<lparr> c_width = Fin (max 0 (Max ((\<lambda>l. x_l l + width l * scale l) ` set (filter isFixed (layers st))))
                         - Min (x_l ` set (filter isFixed (layers st)))),
          c_height = Fin (max 0 (Max ((\<lambda>l. y_l l + height l * scale l) ` set (filter isFixed (layers st))))
                         - Min (y_l ` set (filter isFixed (layers st)))) \<rparr>)"
proof -
  let ?F = "filter isFixed (layers st)"
  have ne: "set ?F \<noteq> {}" using assms(1) unfolding set_empty by assumption
  have mx: "maxX (fold bbox_step ?F bbox_init)
      = max 0 (Max ((\<lambda>l. x_l l + width l * scale l) ` set ?F))"
    using ne by (simp add: fold_bbox_maxX bbox_init_def)
  have my: "maxY (fold bbox_step ?F bbox_init)
      = max 0 (Max ((\<lambda>l. y_l l + height l * scale l) ` set ?F))"
    using ne by (simp add: fold_bbox_maxY bbox_init_def)
  have nx: "minX (fold bbox_step ?F bbox_init) = Fin (Min (x_l ` set ?F))"
    using assms(1) by (simp add: fold_bbox_minX bbox_init_def)
  have ny: "minY (fold bbox_step ?F bbox_init) = Fin (Min (y_l ` set ?F))"
    using assms(1) by (simp add: fold_bbox_minY bbox_init_def)
  show ?thesis
    using assms by (simp add: handleExport_def Let_def mx my nx ny)
qed

text \<open>
  Claim C3 fails on the code.  One fixed layer of size \<open>150 \<times> 75\<close> at
  \<open>(-300, -300)\<close> has its bottom-right corner at \<open>(-150, -225)\<close>; \<open>maxX\<close> and
  \<open>maxY\<close> stay at their initial \<open>0\<close> and the canvas is \<open>300 \<times> 300\<close>, where
  the bounding box of the claim is \<open>150 \<times> 75\<close>.
\<close>

theorem export_dims_exceed_bounding_box:
  "handleExport (\<lambda>s. True)
       \<lparr> layers = [sample_layer\<lparr> x_l := - 300, y_l := - 300, isFixed := True \<rparr>],
         selectedLayerId = None \<rparr>
     = (\<lparr> layers = [sample_layer\<lparr> x_l := - 300, y_l := - 300, isFixed := True \<rparr>],
          selectedLayerId = None \<rparr>,
        Downloaded ''tattoo-collage.png'' \<lparr> c_width = Fin 300, c_height = Fin 300 \<rparr>)
   \<and> spec_export_dims [sample_layer\<lparr> x_l := - 300, y_l := - 300, isFixed := True \<rparr>] = (150, 75)"
  by (simp add: handleExport_def bbox_step_def bbox_init_def spec_export_dims_def sample_layer_def)

text \<open>
  The export never resumes exactly when some fixed layer's image does not
  load; its state is the one it started with in every case.
\<close>

lemma export_pending_iff:
  "snd (handleExport loads st) = Pending
     \<longleftrightarrow> (\<exists>l \<in> set (layers st). isFixed l \<and> \<not> loads (src l))"
  by (auto simp: handleExport_def Let_def list_all_iff filter_empty_conv)

lemma export_state_unchanged: "fst (handleExport loads st) = st"
  by (simp add: handleExport_def Let_def)

text \<open>
  Claim C4 fails on the code in its last part.  With one fixed layer whose
  image does not load, the export produces no file, and it shows no alert
  either: its promise has no \<open>onerror\<close> handler, so the export stays pending.
\<close>

theorem export_hangs_on_decode_failure:
  "handleExport (\<lambda>s. s \<noteq> ''broken.png'')
       \<lparr> layers = [sample_layer\<lparr> src := ''broken.png'', isFixed := True \<rparr>],
         selectedLayerId = None \<rparr>
     = (\<lparr> layers = [sample_layer\<lparr> src := ''broken.png'', isFixed := True \<rparr>],
          selectedLayerId = None \<rparr>, Pending)"
  by (simp add: handleExport_def sample_layer_def)

section \<open>Drop to place: theorems\<close>

text \<open>
  Rounding to the nearest double moves a number by at most half the spacing,
  that is by a relative \<open>2 powr -53\<close> outside the subnormal range; numbers of
  moderate size round to finite doubles; and the rounding of a number whose
  binary exponent is known can be evaluated.
\<close>

lemma quantum_pos: "0 < quantum v"
  by (simp add: quantum_def)

lemma round_half_even_close: "\<bar>of_int (round_half_even r) - r\<bar> \<le> 1 / 2"
proof -
  have "of_int \<lfloor>r\<rfloor> \<le> r" and "r < of_int \<lfloor>r\<rfloor> + 1"
    by linarith+
  then show ?thesis
    by (auto simp: round_half_even_def Let_def)
qed

lemma fl_val_close: "\<bar>fl_val v - v\<bar> \<le> quantum v / 2"
proof (cases "v = 0")
  case True
  then show ?thesis using quantum_pos [of v] by (simp add: fl_val_def)
next
  case False
  define q where "q = quantum v"
  define m where "m = (of_int (round_half_even (\<bar>v\<bar> / q)) :: real)"
  have q: "0 < q" by (simp add: q_def quantum_pos)
  have "\<bar>m - \<bar>v\<bar> / q\<bar> \<le> 1 / 2"
    unfolding m_def by (rule round_half_even_close)
  then have "\<bar>m - \<bar>v\<bar> / q\<bar> * q \<le> 1 / 2 * q"
    using q by (intro mult_right_mono) simp_all
  moreover have "\<bar>m - \<bar>v\<bar> / q\<bar> * q = \<bar>m * q - \<bar>v\<bar>\<bar>"
  proof -
    have "\<bar>m - \<bar>v\<bar> / q\<bar> * q = \<bar>(m - \<bar>v\<bar> / q) * q\<bar>"
      using q by (simp add: abs_mult)
    also have "(m - \<bar>v\<bar> / q) * q = m * q - \<bar>v\<bar>"
      using q by (simp add: field_simps)
    finally show ?thesis .
  qed
  ultimately have c: "\<bar>m * q - \<bar>v\<bar>\<bar> \<le> q / 2" by simp
  have "sgn v * \<bar>v\<bar> = v" by (rule sgn_mult_abs)
  then have "fl_val v - v = sgn v * (m * q - \<bar>v\<bar>)"
    using False by (simp add: fl_val_def m_def q_def right_diff_distrib mult.assoc)
  then have "\<bar>fl_val v - v\<bar> = \<bar>m * q - \<bar>v\<bar>\<bar>"
    using False by (simp add: abs_mult abs_sgn_eq)
  with c show ?thesis by (simp add: q_def)
qed

lemma quantum_eval:
  assumes "2 powr of_int e \<le> \<bar>v\<bar>" and "\<bar>v\<bar> < 2 powr of_int (e + 1)" and "- 1022 \<le> e"
  shows "quantum v = 2 powr (of_int e - 52)"
proof -
  have "0 < \<bar>v\<bar>" using assms(1) powr_gt_zero [of 2 "of_int e"] by linarith
  then have "\<lfloor>log 2 \<bar>v\<bar>\<rfloor> = e"
    using assms(1,2) by (simp add: floor_log_eq_powr_iff)
  then show ?thesis using assms(3) by (simp add: quantum_def max_def)
qed

lemma quantum_le_normal:
  assumes "2 powr (- 1022) \<le> \<bar>v\<bar>"
  shows "quantum v \<le> \<bar>v\<bar> * 2 powr (- 52)"
proof -
  have pos: "0 < \<bar>v\<bar>" using assms powr_gt_zero [of 2 "- 1022"] by linarith
  have "- 1022 \<le> log 2 \<bar>v\<bar>"
    using assms pos by (simp add: le_log_iff)
  then have "- 1022 \<le> \<lfloor>log 2 \<bar>v\<bar>\<rfloor>" by (simp add: le_floor_iff)
  then have "max \<lfloor>log 2 \<bar>v\<bar>\<rfloor> (- 1022) = \<lfloor>log 2 \<bar>v\<bar>\<rfloor>"
    by (rule max_absorb1)
  then have "quantum v = 2 powr (of_int \<lfloor>log 2 \<bar>v\<bar>\<rfloor> - 52)"
    unfolding quantum_def by (rule arg_cong)
  also have "\<dots> = 2 powr of_int \<lfloor>log 2 \<bar>v\<bar>\<rfloor> * 2 powr (- 52)"
    by (simp add: powr_diff powr_minus field_simps)
  also have "2 powr of_int \<lfloor>log 2 \<bar>v\<bar>\<rfloor> \<le> 2 powr log 2 \<bar>v\<bar>"
    by (intro powr_mono) simp_all
  also have "2 powr log 2 \<bar>v\<bar> = \<bar>v\<bar>"
    using pos by simp
  finally show ?thesis by simp
qed

lemma fl_val_rel_error:
  assumes "2 powr (- 1022) \<le> \<bar>v\<bar>"
  shows "\<bar>fl_val v - v\<bar> \<le> \<bar>v\<bar> * 2 powr (- 53)"
proof -
  have "\<bar>fl_val v - v\<bar> \<le> quantum v / 2" by (rule fl_val_close)
  also have "\<dots> \<le> \<bar>v\<bar> * 2 powr (- 52) / 2"
    using quantum_le_normal [OF assms] by simp
  also have "\<dots> = \<bar>v\<bar> * 2 powr (- 53)"
    by (simp add: powr_minus)
  finally show ?thesis .
qed

lemma quantum_le_one_or_normal:
  assumes "v \<noteq> 0"
  shows "quantum v \<le> max (\<bar>v\<bar> * 2 powr (- 52)) 1"
proof (cases "2 powr (- 1022) \<le> \<bar>v\<bar>")
  case True
  from quantum_le_normal [OF this] show ?thesis by simp
next
  case False
  have pos: "0 < \<bar>v\<bar>" using assms by simp
  from False have "\<bar>v\<bar> < 2 powr (- 1022)" by simp
  then have "log 2 \<bar>v\<bar> < - 1022"
    using pos by (simp add: log_less_iff)
  then have "\<lfloor>log 2 \<bar>v\<bar>\<rfloor> \<le> - 1022"
    by (simp add: floor_le_iff)
  then have "max \<lfloor>log 2 \<bar>v\<bar>\<rfloor> (- 1022) = - 1022"
    by (rule max_absorb2)
  then have "quantum v = 2 powr (of_int (- 1022) - 52)"
    unfolding quantum_def by (rule arg_cong)
  also have "\<dots> \<le> 2 powr 0"
    by (intro powr_mono) simp_all
  finally show ?thesis by simp
qed

lemma fl_val_bound: "\<bar>fl_val v\<bar> \<le> 2 * \<bar>v\<bar> + 1"
proof (cases "v = 0")
  case True
  then show ?thesis by (simp add: fl_val_def)
next
  case False
  have c: "\<bar>fl_val v - v\<bar> \<le> quantum v / 2" by (rule fl_val_close)
  have "(2::real) powr (- 52) \<le> 2 powr 0"
    by (intro powr_mono) simp_all
  then have "\<bar>v\<bar> * 2 powr (- 52) \<le> \<bar>v\<bar> * 1"
    by (intro mult_left_mono) simp_all
  then have "quantum v \<le> max \<bar>v\<bar> 1"
    using quantum_le_one_or_normal [OF False] by (simp add: max_def split: if_splits)
  then have "quantum v / 2 \<le> \<bar>v\<bar> + 1"
    by (simp add: max_def split: if_splits)
  with c show ?thesis by linarith
qed

lemma fl_finite:
  assumes "\<bar>v\<bar> \<le> 2 ^ 100"
  shows "fl v = Num (fl_val v)"
proof -
  have "\<bar>fl_val v\<bar> \<le> 2 * \<bar>v\<bar> + 1" by (rule fl_val_bound)
  also have "\<dots> \<le> 2 * 2 ^ 100 + (1::real)" using assms by simp
  also have "\<dots> < (2::real) ^ 1024" by simp
  finally have "\<bar>fl_val v\<bar> < 2 ^ 1024" .
  then show ?thesis by (simp add: fl_def Let_def abs_less_iff not_le)
qed

lemma fl_val_eval:
  assumes "2 powr of_int e \<le> \<bar>v\<bar>" and "\<bar>v\<bar> < 2 powr of_int (e + 1)" and "- 1022 \<le> e"
  shows "fl_val v = sgn v * of_int (round_half_even (\<bar>v\<bar> / 2 powr (of_int e - 52)))
                      * 2 powr (of_int e - 52)"
proof -
  have "0 < \<bar>v\<bar>" using assms(1) powr_gt_zero [of 2 "of_int e"] by linarith
  then have "v \<noteq> 0" by simp
  then show ?thesis
    by (simp add: fl_val_def quantum_eval [OF assms])
qed

lemma fl_val_75: "fl_val 75 = 75"
  using fl_val_eval [of 6 75] by (simp add: round_half_even_def Let_def powr_neg_numeral)

lemma half_initial_width: "js_div (Num 150) (Num 2) = Num 75"
  using fl_finite [of 75] by (simp add: fl_val_75)

lemma fl_small:
  assumes "\<bar>v\<bar> \<le> 2 ^ 60"
  shows "fl v = Num (fl_val v) \<and> \<bar>fl_val v\<bar> \<le> 2 ^ 62"
proof -
  have "\<bar>v\<bar> \<le> 2 ^ 100" using assms by simp
  then have "fl v = Num (fl_val v)" by (rule fl_finite)
  moreover have "\<bar>fl_val v\<bar> \<le> 2 * \<bar>v\<bar> + 1" by (rule fl_val_bound)
  then have "\<bar>fl_val v\<bar> \<le> 2 ^ 62" using assms by simp
  ultimately show ?thesis by simp
qed

text \<open>
  The rounded aspect ratio of an image whose sides are positive and below
  \<open>2 ^ 32\<close>, and the rounded height \<open>150 / aspectRatio\<close>: finite, positive,
  and within a relative \<open>2 powr -51\<close> of \<open>150 * naturalH / naturalW\<close>.
\<close>

lemma aspect_ratio_bounds:
  assumes "0 < w" and "w < 2 ^ 32" and "0 < h" and "h < 2 ^ 32"
  shows "1 / 2 ^ 33 \<le> fl_val (real w / real h) \<and> fl_val (real w / real h) \<le> 2 ^ 33
         \<and> \<bar>fl_val (real w / real h) - real w / real h\<bar> \<le> real w / real h * 2 powr (- 53)"
proof -
  define r where "r = real w / real h"
  have w: "1 \<le> real w" "real w < 2 ^ 32" and h: "1 \<le> real h" "real h < 2 ^ 32"
    using assms by simp_all
  have lo: "1 / 2 ^ 32 \<le> r"
  proof -
    have "1 / 2 ^ 32 \<le> 1 / real h" using h by (simp add: field_simps)
    also have "\<dots> \<le> real w / real h" using w h by (simp add: field_simps)
    finally show ?thesis by (simp add: r_def)
  qed
  have hi: "r \<le> 2 ^ 32"
  proof -
    have "real w / real h \<le> real w / 1" using w h by (intro divide_left_mono) simp_all
    also have "\<dots> \<le> 2 ^ 32" using w by simp
    finally show ?thesis by (simp add: r_def)
  qed
  have rpos: "0 < r" using lo by (rule less_le_trans [rotated]) simp
  have "(2::real) powr (- 1022) \<le> 2 powr (- 32)" by (intro powr_mono) simp_all
  also have "\<dots> = 1 / 2 ^ 32" by (simp add: powr_neg_numeral)
  finally have "2 powr (- 1022) \<le> \<bar>r\<bar>" using lo rpos by simp
  from fl_val_rel_error [OF this] rpos
  have e: "\<bar>fl_val r - r\<bar> \<le> r * 2 powr (- 53)" by simp
  have p53: "(2::real) powr (- 53) = 1 / 2 ^ 53" by (simp add: powr_neg_numeral)
  have "r * 2 powr (- 53) \<le> r / 2"
    using rpos unfolding p53 by (simp add: field_simps)
  with e have half: "r / 2 \<le> fl_val r" and twice: "fl_val r \<le> 2 * r"
    using rpos by linarith+
  have a: "1 / 2 ^ 33 \<le> fl_val r"
    using half lo by simp
  have b: "fl_val r \<le> 2 ^ 33"
    using twice hi by simp
  from a b e show ?thesis unfolding r_def by blast
qed


lemma drop_height_bounds:
  assumes "0 < w" and "w < 2 ^ 32" and "0 < h" and "h < 2 ^ 32"
  shows "0 < fl_val (150 / fl_val (real w / real h))
         \<and> fl_val (150 / fl_val (real w / real h)) \<le> 2 ^ 42
         \<and> \<bar>fl_val (150 / fl_val (real w / real h)) - 150 * real h / real w\<bar>
               \<le> 150 * real h / real w * 2 powr (- 51)"
proof -
  define r where "r = real w / real h"
  define a where "a = fl_val r"
  define t where "t = 150 / a"
  define H where "H = fl_val t"
  define eps where "eps = (2::real) powr (- 53)"
  have eps: "eps = 1 / 2 ^ 53" by (simp add: eps_def powr_neg_numeral)
  have rpos: "0 < r" using assms by (simp add: r_def)
  from aspect_ratio_bounds [OF assms]
  have alo: "1 / 2 ^ 33 \<le> a" and ahi: "a \<le> 2 ^ 33" and aerr: "\<bar>a - r\<bar> \<le> r * eps"
    by (simp_all add: a_def r_def eps_def)
  have apos: "0 < a" using alo by (rule less_le_trans [rotated]) simp
  have "r * eps \<le> r / 2" using rpos by (simp add: eps field_simps)
  with aerr have ahalf: "r / 2 \<le> a" by linarith
  have tpos: "0 < t" using apos by (simp add: t_def)
  have tlo: "150 / 2 ^ 33 \<le> t"
    unfolding t_def using apos ahi by (intro divide_left_mono) simp_all
  have thi: "t \<le> 150 * 2 ^ 33"
  proof -
    have "150 / a \<le> 150 / (1 / 2 ^ 33)"
      using alo by (intro divide_left_mono) simp_all
    then show ?thesis by (simp add: t_def)
  qed
  have "(2::real) powr (- 1022) \<le> 2 powr (- 26)" by (intro powr_mono) simp_all
  also have "\<dots> = 1 / 2 ^ 26" by (simp add: powr_neg_numeral)
  also have "\<dots> \<le> 150 / 2 ^ 33" by simp
  finally have "2 powr (- 1022) \<le> \<bar>t\<bar>" using tlo tpos by simp
  from fl_val_rel_error [OF this] tpos
  have herr: "\<bar>H - t\<bar> \<le> t * eps" by (simp add: H_def eps_def)
  have "t * eps \<le> t / 2" using tpos by (simp add: eps field_simps)
  with herr have hlo: "t / 2 \<le> H" and hhi: "H \<le> 2 * t" using tpos by linarith+
  have Hpos: "0 < H" using hlo tpos by linarith
  have Hhi: "H \<le> 2 ^ 42" using hhi thi by simp
  have tle: "t \<le> 2 * (150 / r)"
  proof -
    have "150 / a \<le> 150 / (r / 2)"
      using ahalf rpos by (intro divide_left_mono) simp_all
    then show ?thesis by (simp add: t_def)
  qed
  have terr: "\<bar>t - 150 / r\<bar> \<le> t * eps"
  proof -
    have "t - 150 / r = 150 * (r - a) / (a * r)"
      using apos rpos by (simp add: t_def field_simps)
    moreover have "\<bar>150 * (r - a) / (a * r)\<bar> = 150 * \<bar>a - r\<bar> / (a * r)"
      using apos rpos by (simp only: abs_divide abs_mult abs_minus_commute [of r a])
    ultimately have "\<bar>t - 150 / r\<bar> = 150 * \<bar>a - r\<bar> / (a * r)"
      by simp
    also have "\<dots> \<le> 150 * (r * eps) / (a * r)"
      using aerr apos rpos by (intro divide_right_mono mult_left_mono) simp_all
    also have "\<dots> = t * eps"
      using apos rpos by (simp add: t_def)
    finally show ?thesis .
  qed
  have "\<bar>H - 150 / r\<bar> \<le> \<bar>H - t\<bar> + \<bar>t - 150 / r\<bar>" by linarith
  also have "\<dots> \<le> 2 * (t * eps)" using herr terr by linarith
  also have "\<dots> \<le> 2 * (2 * (150 / r) * eps)"
    using tle by (intro mult_left_mono mult_right_mono) (simp_all add: eps)
  also have "\<dots> = 150 / r * 2 powr (- 51)"
    by (simp add: eps powr_neg_numeral)
  finally have err: "\<bar>H - 150 / r\<bar> \<le> 150 / r * 2 powr (- 51)" .
  have "150 / r = 150 * real h / real w" by (simp add: r_def)
  with err Hpos Hhi show ?thesis
    unfolding H_def t_def a_def r_def by simp
qed

text \<open>
  Claim C9, as the code has it.  For an asset of natural size
  \<open>naturalW \<times> naturalH\<close> (positive integers below \<open>2 ^ 32\<close>) dropped at the
  canvas-relative point \<open>(clientX - left, clientY - top)\<close> (each at most
  \<open>2 ^ 52\<close> in size), the drop appends and selects one layer with width
  \<open>150\<close>; height \<open>150 / (naturalW / naturalH)\<close> with each quotient rounded to
  the nearest double, which is within a relative \<open>2 powr -51\<close> of
  \<open>150 * naturalH / naturalW\<close> and equal to it when \<open>naturalW / naturalH\<close> and
  \<open>150 * naturalH / naturalW\<close> are doubles; position the drop point minus
  \<open>(75, height / 2)\<close>, each operation rounded; scale \<open>1\<close>, rotation \<open>0\<close>,
  brightness and contrast \<open>100\<close> and \<open>isFixed\<close> false.
\<close>

theorem drop_creates_layer:
  assumes "0 < naturalW" and "naturalW < 2 ^ 32" and "0 < naturalH" and "naturalH < 2 ^ 32"
    and "\<bar>clientX - r_left cb\<bar> \<le> 2 ^ 52" and "\<bar>clientY - r_top cb\<bar> \<le> 2 ^ 52"
  shows "handleCanvasDrop (Some a) (Some cb) (Some (naturalW, naturalH)) clientX clientY now st =
     Placed (st\<lparr> layers := layers st @
             [\<lparr> id_l = ''layer-'' @ show_nat now, assetId = a_id a, src = a_src a,
                originalSrc = a_src a,
                x_l = fl_val (fl_val (clientX - r_left cb) - 75),
                y_l = fl_val (fl_val (clientY - r_top cb)
                       - fl_val (fl_val (150 / fl_val (real naturalW / real naturalH)) / 2)),
                width = 150,
                height = fl_val (150 / fl_val (real naturalW / real naturalH)),
                scale = 1, rotation = 0, brightness = 100, contrast = 100, isFixed = False \<rparr>],
           selectedLayerId := Some (''layer-'' @ show_nat now) \<rparr>)
   \<and> \<bar>fl_val (150 / fl_val (real naturalW / real naturalH)) - 150 * real naturalH / real naturalW\<bar>
         \<le> 150 * real naturalH / real naturalW * 2 powr (- 51)
   \<and> (fl_val (real naturalW / real naturalH) = real naturalW / real naturalH
        \<and> fl_val (150 * real naturalH / real naturalW) = 150 * real naturalH / real naturalW
        \<longrightarrow> fl_val (150 / fl_val (real naturalW / real naturalH))
              = 150 * real naturalH / real naturalW)"
proof -
  define r where "r = real naturalW / real naturalH"
  define ar where "ar = fl_val r"
  define H where "H = fl_val (150 / ar)"
  define px where "px = fl_val (clientX - r_left cb)"
  define py where "py = fl_val (clientY - r_top cb)"
  note wh = assms(1-4)
  have hnz: "real naturalH \<noteq> 0" using assms(3) by simp
  from aspect_ratio_bounds [OF wh]
  have alo: "1 / 2 ^ 33 \<le> ar" and ahi: "ar \<le> 2 ^ 33"
    by (simp_all add: ar_def r_def)
  have apos: "0 < ar" using alo by (rule less_le_trans [rotated]) simp
  from drop_height_bounds [OF wh]
  have Hpos: "0 < H" and Hhi: "H \<le> 2 ^ 42"
    and Herr: "\<bar>H - 150 * real naturalH / real naturalW\<bar>
                 \<le> 150 * real naturalH / real naturalW * 2 powr (- 51)"
    by (simp_all add: H_def ar_def r_def)
  have "\<bar>r\<bar> \<le> 2 ^ 60"
  proof -
    have "real naturalW / real naturalH \<le> real naturalW / 1"
      using wh by (intro divide_left_mono) simp_all
    then show ?thesis using wh by (simp add: r_def)
  qed
  from fl_small [OF this] have e1: "fl r = Num ar" by (simp add: ar_def)
  have "\<bar>150 / ar\<bar> \<le> 2 ^ 60"
  proof -
    have "150 / ar \<le> 150 / (1 / 2 ^ 33)"
      using alo by (intro divide_left_mono) simp_all
    then show ?thesis using apos by simp
  qed
  from fl_small [OF this] have e2: "fl (150 / ar) = Num H" by (simp add: H_def)
  have "\<bar>H / 2\<bar> \<le> 2 ^ 60" using Hpos Hhi by simp
  from fl_small [OF this]
  have e3: "fl (H / 2) = Num (fl_val (H / 2))" and h2: "\<bar>fl_val (H / 2)\<bar> \<le> 2 ^ 62"
    by simp_all
  have "\<bar>clientX - r_left cb\<bar> \<le> 2 ^ 60" using assms(5) by simp
  from fl_small [OF this]
  have e4: "fl (clientX - r_left cb) = Num px" and bx: "\<bar>px\<bar> \<le> 2 ^ 62"
    by (simp_all add: px_def)
  have "\<bar>clientY - r_top cb\<bar> \<le> 2 ^ 60" using assms(6) by simp
  from fl_small [OF this]
  have e5: "fl (clientY - r_top cb) = Num py" and by': "\<bar>py\<bar> \<le> 2 ^ 62"
    by (simp_all add: py_def)
  have "\<bar>px - 75\<bar> \<le> 2 ^ 100" using bx by simp
  then have e6: "fl (px - 75) = Num (fl_val (px - 75))" by (rule fl_finite)
  have "\<bar>py - fl_val (H / 2)\<bar> \<le> 2 ^ 100" using by' h2 by simp
  then have e7: "fl (py - fl_val (H / 2)) = Num (fl_val (py - fl_val (H / 2)))"
    by (rule fl_finite)
  have d1: "js_div (Num (real naturalW)) (Num (real naturalH)) = Num ar"
    using hnz e1 by (simp add: r_def)
  have d2: "js_div (Num 150) (Num ar) = Num H"
    using apos e2 by simp
  have d3: "js_div (Num H) (Num 2) = Num (fl_val (H / 2))"
    using e3 by simp
  have s1: "js_sub (js_sub (Num clientX) (Num (r_left cb))) (Num 75) = Num (fl_val (px - 75))"
    using e4 e6 by simp
  have s2: "js_sub (js_sub (Num clientY) (Num (r_top cb))) (Num (fl_val (H / 2)))
              = Num (fl_val (py - fl_val (H / 2)))"
    using e5 e7 by simp
  have main: "handleCanvasDrop (Some a) (Some cb) (Some (naturalW, naturalH)) clientX clientY now st =
     Placed (st\<lparr> layers := layers st @
             [\<lparr> id_l = ''layer-'' @ show_nat now, assetId = a_id a, src = a_src a,
                originalSrc = a_src a,
                x_l = fl_val (px - 75),
                y_l = fl_val (py - fl_val (H / 2)),
                width = 150,
                height = H,
                scale = 1, rotation = 0, brightness = 100, contrast = 100, isFixed = False \<rparr>],
           selectedLayerId := Some (''layer-'' @ show_nat now) \<rparr>)"
    by (simp add: handleCanvasDrop_def Let_def d1 d2 d3 s1 s2 half_initial_width
          del: js_div.simps js_sub.simps)
  have exact: "fl_val r = r \<and> fl_val (150 * real naturalH / real naturalW)
                   = 150 * real naturalH / real naturalW
        \<longrightarrow> H = 150 * real naturalH / real naturalW"
    by (simp add: H_def ar_def r_def)
  from main Herr exact show ?thesis
    unfolding H_def ar_def r_def px_def py_def by blast
qed

lemma fl_val_2: "fl_val 2 = 2"
  using fl_val_eval [of 1 2] by (simp add: round_half_even_def Let_def powr_neg_numeral)

lemma fl_val_50: "fl_val 50 = 50"
  using fl_val_eval [of 5 50] by (simp add: round_half_even_def Let_def powr_neg_numeral)

lemma fl_val_neg_25: "fl_val (- 25) = - 25"
  using fl_val_eval [of 4 "- 25"] by (simp add: round_half_even_def Let_def powr_neg_numeral)

lemma fl_val_37_5: "fl_val (75 / 2) = 75 / 2"
  using fl_val_eval [of 5 "75 / 2"] by (simp add: round_half_even_def Let_def powr_neg_numeral)

lemma fl_val_12_5: "fl_val (25 / 2) = 25 / 2"
  using fl_val_eval [of 3 "25 / 2"] by (simp add: round_half_even_def Let_def powr_neg_numeral)

text \<open>
  The scenario of the specification: a \<open>200 \<times> 100\<close> asset dropped at the
  canvas point \<open>(50, 50)\<close>, the canvas sitting at \<open>(352, 64)\<close> in the window.
  Every quotient is exact: size \<open>(150, 75)\<close>, position \<open>(-25, 12.5)\<close>.
\<close>

theorem drop_creates_layer_witness:
  "(0::nat) < 200 \<and> (200::nat) < 2 ^ 32 \<and> (0::nat) < 100 \<and> (100::nat) < 2 ^ 32
   \<and> \<bar>402 - r_left \<lparr> r_left = 352, r_top = 64, r_width = 800, r_height = 600 \<rparr>\<bar> \<le> 2 ^ 52
   \<and> \<bar>114 - r_top \<lparr> r_left = 352, r_top = 64, r_width = 800, r_height = 600 \<rparr>\<bar> \<le> 2 ^ 52
   \<and> handleCanvasDrop (Some \<lparr> a_id = ''dragon-1'', a_src = ''dragon.png'' \<rparr>)
        (Some \<lparr> r_left = 352, r_top = 64, r_width = 800, r_height = 600 \<rparr>)
        (Some (200, 100)) 402 114 1700000000000 \<lparr> layers = [], selectedLayerId = None \<rparr>
     = Placed \<lparr> layers =
             [\<lparr> id_l = ''layer-'' @ show_nat 1700000000000, assetId = ''dragon-1'',
                src = ''dragon.png'', originalSrc = ''dragon.png'',
                x_l = - 25, y_l = 12.5, width = 150, height = 75,
                scale = 1, rotation = 0, brightness = 100, contrast = 100, isFixed = False \<rparr>],
           selectedLayerId = Some (''layer-'' @ show_nat 1700000000000) \<rparr>"
proof -
  have w: "(0::nat) < 200" "(200::nat) < 2 ^ 32" and h: "(0::nat) < 100" "(100::nat) < 2 ^ 32"
    by simp_all
  have x: "\<bar>402 - r_left \<lparr> r_left = 352, r_top = 64, r_width = 800, r_height = 600 \<rparr>\<bar> \<le> 2 ^ 52"
    and y: "\<bar>114 - r_top \<lparr> r_left = 352, r_top = 64, r_width = 800, r_height = 600 \<rparr>\<bar> \<le> 2 ^ 52"
    by simp_all
  from drop_creates_layer [OF w h x y, of "\<lparr> a_id = ''dragon-1'', a_src = ''dragon.png'' \<rparr>"
      1700000000000 "\<lparr> layers = [], selectedLayerId = None \<rparr>"]
  show ?thesis
    by (simp add: fl_val_2 fl_val_75 fl_val_37_5 fl_val_50 fl_val_neg_25 fl_val_12_5)
qed

lemma fl_val_50_68: "fl_val (50 / 68) = 6622940628486024 / 2 ^ 53"
  using fl_val_eval [of "- 1" "50 / 68"]
  by (simp add: round_half_even_def Let_def powr_neg_numeral)

lemma fl_val_height_50_68:
  "fl_val (150 / (6622940628486024 / 2 ^ 53)) = 7177611906121727 / 2 ^ 45"
  using fl_val_eval [of 7 "150 / (6622940628486024 / 2 ^ 53)"]
  by (simp add: round_half_even_def Let_def powr_neg_numeral)

lemma fl_val_half_height_50_68:
  "fl_val (7177611906121727 / 2 ^ 45 / 2) = 7177611906121727 / 2 ^ 46"
  using fl_val_eval [of 6 "7177611906121727 / 2 ^ 45 / 2"]
  by (simp add: round_half_even_def Let_def powr_neg_numeral)

lemma fl_val_y_50_68:
  "fl_val (50 - 7177611906121727 / 2 ^ 46) = - (3659174697238527 / 2 ^ 46)"
  using fl_val_eval [of 5 "50 - 7177611906121727 / 2 ^ 46"]
  by (simp add: round_half_even_def Let_def powr_neg_numeral)

text \<open>
  Claim C9, as stated, fails.  For a \<open>50 \<times> 68\<close> asset dropped at the canvas
  point \<open>(50, 50)\<close> the quotient \<open>50 / 68\<close> is rounded, and so is \<open>150\<close> divided
  by it: the height stored is \<open>204 - 1 / 2 ^ 45\<close> (printed
  \<open>203.99999999999997\<close>), not \<open>150 * 68 / 50 = 204\<close>, and the y stored is
  \<open>-52 + 1 / 2 ^ 46\<close>, not \<open>-52\<close>.
\<close>

theorem drop_height_not_exact_counterexample:
  "handleCanvasDrop (Some \<lparr> a_id = ''dragon-1'', a_src = ''dragon.png'' \<rparr>)
        (Some \<lparr> r_left = 352, r_top = 64, r_width = 800, r_height = 600 \<rparr>)
        (Some (50, 68)) 402 114 1700000000000 \<lparr> layers = [], selectedLayerId = None \<rparr>
     = Placed \<lparr> layers =
             [\<lparr> id_l = ''layer-'' @ show_nat 1700000000000, assetId = ''dragon-1'',
                src = ''dragon.png'', originalSrc = ''dragon.png'',
                x_l = - 25, y_l = - 52 + 1 / 2 ^ 46, width = 150, height = 204 - 1 / 2 ^ 45,
                scale = 1, rotation = 0, brightness = 100, contrast = 100, isFixed = False \<rparr>],
           selectedLayerId = Some (''layer-'' @ show_nat 1700000000000) \<rparr>
   \<and> 204 - 1 / 2 ^ 45 \<noteq> (150 * 68 / 50 :: real)
   \<and> - 52 + 1 / 2 ^ 46 \<noteq> (114 - 64 - (150 * 68 / 50) / 2 :: real)"
proof -
  have f1: "fl (50 / 68) = Num (6622940628486024 / 2 ^ 53)"
    using fl_finite [of "50 / 68"] fl_val_50_68 by simp
  have f2: "fl (150 / (6622940628486024 / 2 ^ 53)) = Num (7177611906121727 / 2 ^ 45)"
    using fl_finite [of "150 / (6622940628486024 / 2 ^ 53)"] fl_val_height_50_68 by simp
  have f3: "fl (7177611906121727 / 2 ^ 45 / 2) = Num (7177611906121727 / 2 ^ 46)"
    using fl_finite [of "7177611906121727 / 2 ^ 45 / 2"] fl_val_half_height_50_68 by simp
  have f4: "fl (50 - 7177611906121727 / 2 ^ 46) = Num (- (3659174697238527 / 2 ^ 46))"
    using fl_finite [of "50 - 7177611906121727 / 2 ^ 46"] fl_val_y_50_68 by simp
  have f5: "fl 50 = Num 50"
    using fl_finite [of 50] fl_val_50 by simp
  have f6: "fl 75 = Num 75"
    using fl_finite [of 75] fl_val_75 by simp
  have f7: "fl (- 25) = Num (- 25)"
    using fl_finite [of "- 25"] fl_val_neg_25 by simp
  from f1 f2 f3 f4 f5 f6 f7 show ?thesis
    by (simp add: handleCanvasDrop_def Let_def)
qed

text \<open>
  An image of natural width \<open>0\<close>: the aspect ratio is \<open>0\<close>, the height
  \<open>Infinity\<close> and the y \<open>-Infinity\<close>.
\<close>

lemma drop_zero_width:
  assumes "0 < naturalH"
    and "\<bar>clientX - r_left cb\<bar> \<le> 2 ^ 52" and "\<bar>clientY - r_top cb\<bar> \<le> 2 ^ 52"
  shows "handleCanvasDrop (Some a) (Some cb) (Some (0, naturalH)) clientX clientY now st =
     PlacedNonFinite (Num (fl_val (fl_val (clientX - r_left cb) - 75))) NegInfinity PosInfinity"
proof -
  have hnz: "real naturalH \<noteq> 0" using assms(1) by simp
  have "\<bar>clientX - r_left cb\<bar> \<le> 2 ^ 60" using assms(2) by simp
  from fl_small [OF this]
  have e4: "fl (clientX - r_left cb) = Num (fl_val (clientX - r_left cb))"
    and bx: "\<bar>fl_val (clientX - r_left cb)\<bar> \<le> 2 ^ 62"
    by simp_all
  have "\<bar>fl_val (clientX - r_left cb) - 75\<bar> \<le> 2 ^ 100" using bx by simp
  then have e6: "fl (fl_val (clientX - r_left cb) - 75)
                   = Num (fl_val (fl_val (clientX - r_left cb) - 75))"
    by (rule fl_finite)
  have "\<bar>clientY - r_top cb\<bar> \<le> 2 ^ 60" using assms(3) by simp
  from fl_small [OF this]
  have e5: "fl (clientY - r_top cb) = Num (fl_val (clientY - r_top cb))"
    by simp
  have z: "fl 0 = Num 0" by (simp add: fl_def fl_val_def)
  have d1: "js_div (Num 0) (Num (real naturalH)) = Num 0"
    using hnz z by simp
  have s1: "js_sub (js_sub (Num clientX) (Num (r_left cb))) (Num 75)
              = Num (fl_val (fl_val (clientX - r_left cb) - 75))"
    using e4 e6 by simp
  have s2: "js_sub (js_sub (Num clientY) (Num (r_top cb))) PosInfinity = NegInfinity"
    using e5 by simp
  have d2: "js_div (Num 150) (Num 0) = PosInfinity" by simp
  have d3: "js_div PosInfinity (Num 2) = PosInfinity" by simp
  show ?thesis
    by (simp add: handleCanvasDrop_def Let_def d1 d2 d3 s1 s2 half_initial_width
          del: js_div.simps js_sub.simps)
qed

end
